theory Spec2Isabelle
  imports Complex_Main
begin

section \<open>Wilderness encounter simulator: dice, tables, encounter resolution\<close>

text \<open>
  A shallow embedding of \<^verbatim>\<open>dice.py\<close>, \<^verbatim>\<open>table.py\<close> and
  \<^verbatim>\<open>wilderness_encounter_sim.py\<close>.

  Conventions.
  \<^item> Python integers are \<open>int\<close>; \<open>//\<close> is \<open>div\<close> (both round towards minus infinity).
  \<^item> Strings are \<open>string\<close>, read as ASCII text; on such text the regular expression
    class \<^verbatim>\<open>\d\<close> is the ten characters 0 to 9.
  \<^item> An exception is a value \<open>Inl e\<close> of the sum type \<open>error + 'a\<close>.
  \<^item> The process-wide generator \<^verbatim>\<open>Dice._random\<close> is an explicit state \<open>rng\<close> that
    every rolling function takes and returns, also when it raises.
  \<^item> The built-ins \<^verbatim>\<open>int()\<close> and \<^verbatim>\<open>float()\<close> applied to whole table cells are
    parameters \<open>py_int\<close> and \<open>py_float\<close> of the functions that call them
    (\<open>None\<close> stands for \<^verbatim>\<open>ValueError\<close>); the theorems hold for every such pair.
\<close>

subsection \<open>Errors and the random source\<close>

datatype error =
    EmptyRange int          \<comment> \<open>\<^verbatim>\<open>random.randint(1, n)\<close> with \<open>n < 1\<close>: ValueError\<close>
  | IndexError              \<comment> \<open>list index out of range\<close>
  | NoNonNullRow int nat    \<comment> \<open>ValueError "No non-null entries found in row i after n attempts"\<close>
  | NoNonNullCol int nat    \<comment> \<open>ValueError "No non-null entries found in column i after n attempts"\<close>

text \<open>
  The generator: \<open>feed\<close> is the sequence of raw values it will produce, \<open>drawn\<close> counts
  the draws made so far. A draw with \<open>sides\<close> faces maps the next raw value into
  \<open>1..sides\<close>; every sequence of outcomes in range arises from some \<open>feed\<close>.
\<close>

record rng =
  feed :: "nat \<Rightarrow> nat"
  drawn :: nat

type_synonym 'a outcome = "(error + 'a) \<times> rng"

definition roll :: "int \<Rightarrow> rng \<Rightarrow> int outcome" where
  "roll sd g =
     (if sd < 1 then (Inl (EmptyRange sd), g)
      else (Inr (1 + int (feed g (drawn g) mod nat sd)), g\<lparr>drawn := drawn g + 1\<rparr>))"

text \<open>A scripted generator, as a test harness substitutes: the raw values of a list, then zeros.\<close>

definition script :: "nat list \<Rightarrow> nat \<Rightarrow> nat" where
  "script xs n = (if n < length xs then xs ! n else 0)"

definition scripted :: "nat list \<Rightarrow> rng" where
  "scripted xs = \<lparr>feed = script xs, drawn = 0\<rparr>"

subsection \<open>dice.py: the dice specification\<close>

record dice =
  number :: int
  sides :: int
  multiplier :: int
  addition :: int

definition adjust_roll :: "dice \<Rightarrow> int \<Rightarrow> int" where
  "adjust_roll d r =
     (if multiplier d \<ge> 0 then r * multiplier d
      else (r - 1) div (- multiplier d) + 1) + addition d"

text \<open>The loop of \<^verbatim>\<open>roll_dice\<close>: \<open>k\<close> iterations left, \<open>tot\<close> is \<^verbatim>\<open>total\<close>.\<close>

fun roll_loop :: "nat \<Rightarrow> int \<Rightarrow> int \<Rightarrow> rng \<Rightarrow> int outcome" where
  "roll_loop 0 sd tot g = (Inr tot, g)"
| "roll_loop (Suc k) sd tot g =
     (case roll sd g of
        (Inl e, g') \<Rightarrow> (Inl e, g')
      | (Inr r, g') \<Rightarrow> roll_loop k sd (tot + r) g')"

definition roll_dice :: "dice \<Rightarrow> rng \<Rightarrow> int outcome" where
  "roll_dice d g =
     (case roll_loop (nat (number d)) (sides d) 0 g of
        (Inl e, g') \<Rightarrow> (Inl e, g')
      | (Inr tot, g') \<Rightarrow> (Inr (adjust_roll d tot), g'))"

definition min_roll :: "dice \<Rightarrow> int" where
  "min_roll d = adjust_roll d (number d)"

definition max_roll :: "dice \<Rightarrow> int" where
  "max_roll d = adjust_roll d (number d * sides d)"

subsection \<open>dice.py: parsing dice notation\<close>

definition is_digit :: "char \<Rightarrow> bool" where
  "is_digit c = (c \<in> set ''0123456789'')"

definition is_nonzero_digit :: "char \<Rightarrow> bool" where
  "is_nonzero_digit c = (c \<in> set ''123456789'')"

definition digit_val :: "char \<Rightarrow> nat" where
  "digit_val c = of_char c - of_char CHR ''0''"

text \<open>\<^verbatim>\<open>int(ds)\<close> for a string \<open>ds\<close> of decimal digits, as the match groups are.\<close>

definition digits_val :: "string \<Rightarrow> int" where
  "digits_val ds = int (foldl (\<lambda>a c. 10 * a + digit_val c) 0 ds)"

text \<open>
  One scan of \<^verbatim>\<open>[1-9]\d*\<close> at the head of a string: the digits taken and what follows.
  The scan is greedy, and giving digits back never helps the pattern below, because
  each number in it is followed by a character that is not a digit or by nothing.
\<close>

definition scan_posnum :: "string \<Rightarrow> (string \<times> string) option" where
  "scan_posnum s =
     (case s of
        [] \<Rightarrow> None
      | c # cs \<Rightarrow>
          if is_nonzero_digit c
          then Some (c # takeWhile is_digit cs, dropWhile is_digit cs)
          else None)"

text \<open>
  The result of \<^verbatim>\<open>pattern.match(s)\<close> for the pattern
  \<^verbatim>\<open>([1-9]\d*)?d([1-9]\d*)([/x][1-9]\d*)?([+-]\d+)?\<close>: the four groups (an optional
  group that did not take part is \<open>None\<close>) and the text after the match.
  \<^verbatim>\<open>match\<close> anchors at the start of the string only.
\<close>

record regex_match =
  group1 :: "string option"
  group2 :: string
  group3 :: "string option"
  group4 :: "string option"
  unmatched :: string

definition scan_group3 :: "string \<Rightarrow> string option \<times> string" where
  "scan_group3 s =
     (case s of
        [] \<Rightarrow> (None, s)
      | c # cs \<Rightarrow>
          if c = CHR ''/'' \<or> c = CHR ''x''
          then (case scan_posnum cs of
                  None \<Rightarrow> (None, s)
                | Some (ds, r) \<Rightarrow> (Some (c # ds), r))
          else (None, s))"

definition scan_group4 :: "string \<Rightarrow> string option \<times> string" where
  "scan_group4 s =
     (case s of
        [] \<Rightarrow> (None, s)
      | c # cs \<Rightarrow>
          if (c = CHR ''+'' \<or> c = CHR ''-'') \<and> takeWhile is_digit cs \<noteq> []
          then (Some (c # takeWhile is_digit cs), dropWhile is_digit cs)
          else (None, s))"

definition pattern_match :: "string \<Rightarrow> regex_match option" where
  "pattern_match s =
     (let (g1, r1) = (case scan_posnum s of None \<Rightarrow> (None, s) | Some (ds, r) \<Rightarrow> (Some ds, r))
      in case r1 of
           [] \<Rightarrow> None
         | c # r2 \<Rightarrow>
             if c \<noteq> CHR ''d'' then None
             else (case scan_posnum r2 of
                     None \<Rightarrow> None
                   | Some (g2, r3) \<Rightarrow>
                       (let (g3, r4) = scan_group3 r3;
                            (g4, r5) = scan_group4 r4
                        in Some \<lparr>group1 = g1, group2 = g2, group3 = g3, group4 = g4,
                                 unmatched = r5\<rparr>)))"

definition startswith :: "string \<Rightarrow> string \<Rightarrow> bool" where
  "startswith s p = (take (length p) s = p)"

text \<open>
  \<^verbatim>\<open>_parse_string\<close>. \<open>tl g\<close> is \<^verbatim>\<open>g[1:]\<close>. In the \<^verbatim>\<open>else\<close> branch \<^verbatim>\<open>int(s)\<close>
  is the parameter \<open>py_int\<close>, and \<open>None\<close> its \<^verbatim>\<open>ValueError\<close>.
\<close>

definition parse_string :: "(string \<Rightarrow> int option) \<Rightarrow> string \<Rightarrow> dice" where
  "parse_string py_int s =
     (case pattern_match s of
        Some m \<Rightarrow>
          \<lparr>number = (case group1 m of Some g \<Rightarrow> digits_val g | None \<Rightarrow> 1),
           sides = digits_val (group2 m),
           multiplier =
             (case group3 m of
                Some g \<Rightarrow> if startswith g ''x'' then digits_val (tl g) else - digits_val (tl g)
              | None \<Rightarrow> 1),
           addition =
             (case group4 m of
                Some g \<Rightarrow> if startswith g ''+'' then digits_val (tl g) else - digits_val (tl g)
              | None \<Rightarrow> 0)\<rparr>
      | None \<Rightarrow>
          \<lparr>number = 0, sides = 0, multiplier = 1,
           addition = (case py_int s of Some n \<Rightarrow> n | None \<Rightarrow> 0)\<rparr>)"

subsection \<open>dice.py: formatting\<close>

definition digit_char :: "nat \<Rightarrow> char" where
  "digit_char n = ''0123456789'' ! (n mod 10)"

fun digits_of :: "nat \<Rightarrow> string" where
  "digits_of n = (if n < 10 then [digit_char n] else digits_of (n div 10) @ [digit_char n])"

text \<open>\<^verbatim>\<open>str(i)\<close> for an integer.\<close>

definition str_int :: "int \<Rightarrow> string" where
  "str_int i = (if i < 0 then CHR ''-'' # digits_of (nat (- i)) else digits_of (nat i))"

definition format_bonus :: "int \<Rightarrow> string" where
  "format_bonus bonus = (if bonus \<ge> 0 then ''+'' @ str_int bonus else str_int bonus)"

definition format_multiplier :: "int \<Rightarrow> string" where
  "format_multiplier mult = (if mult \<ge> 0 then ''x'' @ str_int mult else ''/'' @ str_int (- mult))"

definition dice_str :: "dice \<Rightarrow> string" where
  "dice_str d =
     (if number d > 0
      then str_int (number d) @ ''d'' @ str_int (sides d)
           @ (if multiplier d \<noteq> 1 then format_multiplier (multiplier d) else [])
           @ (if addition d \<noteq> 0 then format_bonus (addition d) else [])
      else str_int (addition d))"

subsection \<open>table.py: the lookup table\<close>

text \<open>
  The grid as \<^verbatim>\<open>csv.reader\<close> delivers it: a list of rows, each a list of cells. Row 0
  holds the column names and cell 0 of each row its name.
\<close>

type_synonym table = "string list list"

definition NULL_ENTRY :: string where
  "NULL_ENTRY = ''-''"

text \<open>\<^verbatim>\<open>xs[i]\<close>: a negative index counts from the end, an index out of range raises.\<close>

definition py_index :: "'a list \<Rightarrow> int \<Rightarrow> error + 'a" where
  "py_index xs i =
     (if 0 \<le> i \<and> i < int (length xs) then Inr (xs ! nat i)
      else if - int (length xs) \<le> i \<and> i < 0 then Inr (xs ! nat (int (length xs) + i))
      else Inl IndexError)"

definition get_num_rows :: "table \<Rightarrow> int" where
  "get_num_rows t = int (length t) - 1"

definition get_num_cols :: "table \<Rightarrow> int" where
  "get_num_cols t = (case t of [] \<Rightarrow> 0 | header # _ \<Rightarrow> int (length header) - 1)"

definition get_entry :: "table \<Rightarrow> int \<Rightarrow> int \<Rightarrow> error + string" where
  "get_entry t row col =
     (case py_index t row of Inl e \<Rightarrow> Inl e | Inr r \<Rightarrow> py_index r col)"

text \<open>
  \<^verbatim>\<open>get_row_from_name\<close> scans rows \<open>1, 2, ...\<close>; \<open>row_scan rs name i\<close> is the loop
  standing at index \<open>i\<close> with the rows \<open>rs\<close> still to visit. A row without cells makes
  \<^verbatim>\<open>self.table[i][0]\<close> raise.
\<close>

fun row_scan :: "string list list \<Rightarrow> string \<Rightarrow> int \<Rightarrow> error + int" where
  "row_scan [] name i = Inr (- 1)"
| "row_scan (r # rs) name i =
     (case r of
        [] \<Rightarrow> Inl IndexError
      | c # _ \<Rightarrow> if c = name then Inr i else row_scan rs name (i + 1))"

definition get_row_from_name :: "table \<Rightarrow> string \<Rightarrow> error + int" where
  "get_row_from_name t name = row_scan (drop 1 t) name 1"

fun col_scan :: "string list \<Rightarrow> string \<Rightarrow> int \<Rightarrow> int" where
  "col_scan [] name i = - 1"
| "col_scan (c # cs) name i = (if c = name then i else col_scan cs name (i + 1))"

definition get_col_from_name :: "table \<Rightarrow> string \<Rightarrow> error + int" where
  "get_col_from_name t name =
     (case t of
        [] \<Rightarrow> Inl IndexError
      | header # _ \<Rightarrow> Inr (col_scan (drop 1 header) name 1))"

definition max_attempts :: nat where
  "max_attempts = 1000"

text \<open>
  The \<^verbatim>\<open>while attempts < max_attempts\<close> loops of \<^verbatim>\<open>get_random_entry_on_row\<close> and
  \<^verbatim>\<open>get_random_entry_on_col\<close>, entered with the current value of \<^verbatim>\<open>attempts\<close>.
\<close>

function row_attempts :: "table \<Rightarrow> int \<Rightarrow> nat \<Rightarrow> rng \<Rightarrow> string outcome" where
  "row_attempts t index attempts g =
     (if attempts < max_attempts
      then (case roll (get_num_cols t) g of
              (Inl e, g') \<Rightarrow> (Inl e, g')
            | (Inr r, g') \<Rightarrow>
                (case get_entry t index r of
                   Inl e \<Rightarrow> (Inl e, g')
                 | Inr entry \<Rightarrow>
                     if entry \<noteq> NULL_ENTRY then (Inr entry, g')
                     else row_attempts t index (attempts + 1) g'))
      else (Inl (NoNonNullRow index max_attempts), g))"
  by pat_completeness auto
termination
  by (relation "measure (\<lambda>(t, index, attempts, g). max_attempts - attempts)") auto

function col_attempts :: "table \<Rightarrow> int \<Rightarrow> nat \<Rightarrow> rng \<Rightarrow> string outcome" where
  "col_attempts t index attempts g =
     (if attempts < max_attempts
      then (case roll (get_num_rows t) g of
              (Inl e, g') \<Rightarrow> (Inl e, g')
            | (Inr r, g') \<Rightarrow>
                (case get_entry t r index of
                   Inl e \<Rightarrow> (Inl e, g')
                 | Inr entry \<Rightarrow>
                     if entry \<noteq> NULL_ENTRY then (Inr entry, g')
                     else col_attempts t index (attempts + 1) g'))
      else (Inl (NoNonNullCol index max_attempts), g))"
  by pat_completeness auto
termination
  by (relation "measure (\<lambda>(t, index, attempts, g). max_attempts - attempts)") auto

definition get_random_entry_on_row :: "table \<Rightarrow> int \<Rightarrow> rng \<Rightarrow> string outcome" where
  "get_random_entry_on_row t index g = row_attempts t index 0 g"

definition get_random_entry_on_col :: "table \<Rightarrow> int \<Rightarrow> rng \<Rightarrow> string outcome" where
  "get_random_entry_on_col t index g = col_attempts t index 0 g"

declare row_attempts.simps [simp del] col_attempts.simps [simp del]

subsection \<open>wilderness\_encounter\_sim.py: the encounter resolver\<close>

text \<open>
  A Python float: a finite value (every double is a rational number), an infinity or
  not-a-number. \<open>float_le\<close> is \<^verbatim>\<open><=\<close>, which is false whenever an operand is
  not-a-number.
\<close>

datatype pyfloat = Finite rat | PosInf | NegInf | NaN

fun float_le :: "pyfloat \<Rightarrow> pyfloat \<Rightarrow> bool" where
  "float_le NaN _ = False"
| "float_le _ NaN = False"
| "float_le NegInf _ = True"
| "float_le _ PosInf = True"
| "float_le PosInf _ = False"
| "float_le _ NegInf = False"
| "float_le (Finite a) (Finite b) = (a \<le> b)"

text \<open>The built-ins \<^verbatim>\<open>int(s)\<close> and \<^verbatim>\<open>float(s)\<close> on a string; \<open>None\<close> is ValueError.\<close>

record python =
  py_int :: "string \<Rightarrow> int option"
  py_float :: "string \<Rightarrow> pyfloat option"

text \<open>
  Stand-ins for the two built-ins on plain decimal text, to run examples: \<open>decimal_int\<close>
  reads digits, optionally after one minus sign; \<open>decimal_float\<close> reads digits,
  optionally followed by a point and more digits, as the exact value (which is the
  double itself when the value is one, as 0.5 and 2 are). Both fail elsewhere.
\<close>

definition decimal_int :: "string \<Rightarrow> int option" where
  "decimal_int s =
     (if s \<noteq> [] \<and> list_all is_digit s then Some (digits_val s)
      else if startswith s ''-'' \<and> tl s \<noteq> [] \<and> list_all is_digit (tl s)
      then Some (- digits_val (tl s))
      else None)"

definition decimal_float :: "string \<Rightarrow> pyfloat option" where
  "decimal_float s =
     (let ip = takeWhile is_digit s; r = dropWhile is_digit s
      in if ip = [] then None
         else if r = [] then Some (Finite (of_int (digits_val ip)))
         else if startswith r ''.'' \<and> tl r \<noteq> [] \<and> list_all is_digit (tl r)
         then Some (Finite (of_int (digits_val (ip @ tl r)) / 10 ^ length (tl r)))
         else None)"

definition plain_python :: python where
  "plain_python = \<lparr>py_int = decimal_int, py_float = decimal_float\<rparr>"

record sim =
  main_table :: table
  sub_table :: table
  monster_table :: table
  terrain :: string
  terrain_index :: int

definition MONSTER_NUM_COL :: int where "MONSTER_NUM_COL = 1"
definition MONSTER_HDN_COL :: int where "MONSTER_HDN_COL = 12"
definition MONSTER_EHD_COL :: int where "MONSTER_EHD_COL = 13"

definition sub_table_fixup :: "string \<Rightarrow> string \<Rightarrow> string" where
  "sub_table_fixup tbl sub =
     (if sub = ''Men''
      then (if tbl = ''Mountain'' then ''Men Mountain''
            else if tbl = ''Desert'' then ''Men Desert''
            else if tbl = ''River'' then ''Men Water''
            else ''Men Typical'')
      else sub)"

text \<open>\<^verbatim>\<open>monster_fixup\<close>, last part first: the giant animals, then the dragon, then the giant.\<close>

definition monster_fixup_animal :: "string \<Rightarrow> string" where
  "monster_fixup_animal mon_name =
     (if mon_name = ''Giant Snake'' then ''Giant Snake, Constrictor''
      else if mon_name = ''Giant Beetle'' then ''Giant Beetle, Bombardier''
      else if mon_name = ''Giant Ant'' then ''Giant Ant, Worker''
      else if mon_name = ''Sea Monster'' then ''Sea Monster, Small''
      else if mon_name = ''Hydra'' then ''Hydra, 10 Heads''
      else if mon_name = ''Roc'' then ''Roc, Small''
      else mon_name)"

definition monster_fixup_dragon :: "string \<Rightarrow> rng \<Rightarrow> string outcome" where
  "monster_fixup_dragon mon_name g =
     (if mon_name = ''Dragon''
      then (case roll 6 g of
              (Inl e, g') \<Rightarrow> (Inl e, g')
            | (Inr r, g') \<Rightarrow>
                if r = 1 then (Inr ''Dragon, White'', g')
                else if r = 2 then (Inr ''Dragon, Black'', g')
                else if r = 3 then (Inr ''Dragon, Green'', g')
                else if r = 4 then (Inr ''Dragon, Blue'', g')
                else if r = 5 then (Inr ''Dragon, Red'', g')
                else if r = 6 then (Inr ''Dragon, Gold'', g')
                else (Inr (monster_fixup_animal mon_name), g'))
      else (Inr (monster_fixup_animal mon_name), g))"

definition monster_fixup :: "string \<Rightarrow> rng \<Rightarrow> string outcome" where
  "monster_fixup mon_name g =
     (if mon_name = ''Giant''
      then (case roll 10 g of
              (Inl e, g') \<Rightarrow> (Inl e, g')
            | (Inr r, g') \<Rightarrow>
                if r \<le> 6 then (Inr ''Giant, Hill'', g')
                else if r = 7 then (Inr ''Giant, Stone'', g')
                else if r = 8 then (Inr ''Giant, Frost'', g')
                else if r = 9 then (Inr ''Giant, Fire'', g')
                else if r = 10 then (Inr ''Giant, Cloud'', g')
                else monster_fixup_dragon mon_name g')
      else monster_fixup_dragon mon_name g)"

definition npc_level :: "string \<Rightarrow> int" where
  "npc_level type_name =
     (if type_name = ''Wizard'' then 11
      else if type_name = ''Necromancer'' then 10
      else if type_name = ''Lord'' then 9
      else if type_name = ''Superhero'' then 8
      else if type_name = ''Patriarch'' then 8
      else if type_name = ''Evil High Priest'' then 8
      else 0)"

text \<open>
  \<^verbatim>\<open>get_npc_entourage\<close>: \<^verbatim>\<open>Dice(2, 6).roll_dice()\<close> gives the number of four-sided
  rolls to add up; its loop has the shape of the one in \<^verbatim>\<open>roll_dice\<close>.
\<close>

definition get_npc_entourage :: "rng \<Rightarrow> int outcome" where
  "get_npc_entourage g =
     (case roll_dice \<lparr>number = 2, sides = 6, multiplier = 1, addition = 0\<rparr> g of
        (Inl e, g') \<Rightarrow> (Inl e, g')
      | (Inr n, g') \<Rightarrow> roll_loop (nat n) 4 0 g')"

definition handle_npc_type :: "string \<Rightarrow> rng \<Rightarrow> int outcome" where
  "handle_npc_type type_name g =
     (if npc_level type_name = 0 then (Inr 0, g)
      else (case get_npc_entourage g of
              (Inl e, g') \<Rightarrow> (Inl e, g')
            | (Inr v, g') \<Rightarrow> (Inr (npc_level type_name + v), g')))"

definition ehd_fixup :: "string \<Rightarrow> int \<Rightarrow> int" where
  "ehd_fixup mon_name ehd =
     (if ehd = 0 then (if mon_name = ''Dragon, Gold'' then 40 else ehd) else ehd)"

definition str_to_int :: "python \<Rightarrow> string \<Rightarrow> int" where
  "str_to_int py s = (case py_int py s of Some n \<Rightarrow> n | None \<Rightarrow> 0)"

definition str_to_dbl :: "python \<Rightarrow> string \<Rightarrow> pyfloat" where
  "str_to_dbl py s = (case py_float py s of Some x \<Rightarrow> x | None \<Rightarrow> Finite 0)"

text \<open>
  \<^verbatim>\<open>roll_encounter_by_monster\<close>. The messages printed to stderr do not change the
  result and are left out.
\<close>

definition roll_encounter_by_monster :: "python \<Rightarrow> sim \<Rightarrow> string \<Rightarrow> rng \<Rightarrow> int outcome" where
  "roll_encounter_by_monster py sm monster_name g =
     (case handle_npc_type monster_name g of
        (Inl e, g1) \<Rightarrow> (Inl e, g1)
      | (Inr npc_value, g1) \<Rightarrow>
          if npc_value > 0 then (Inr npc_value, g1)
          else (case get_row_from_name (monster_table sm) monster_name of
                  Inl e \<Rightarrow> (Inl e, g1)
                | Inr monster_index \<Rightarrow>
                    if monster_index < 1 then (Inr 0, g1)
                    else (case get_entry (monster_table sm) monster_index MONSTER_NUM_COL of
                            Inl e \<Rightarrow> (Inl e, g1)
                          | Inr num_cell \<Rightarrow>
         (case roll_dice (parse_string (py_int py) num_cell) g1 of
            (Inl e, g2) \<Rightarrow> (Inl e, g2)
          | (Inr num, g2) \<Rightarrow>
              (case get_entry (monster_table sm) monster_index MONSTER_EHD_COL of
                 Inl e \<Rightarrow> (Inl e, g2)
               | Inr ehd_cell \<Rightarrow>
                   (let ehd = ehd_fixup monster_name (str_to_int py ehd_cell);
                        total_ehd = num * ehd
                    in case get_entry (monster_table sm) monster_index MONSTER_HDN_COL of
                         Inl e \<Rightarrow> (Inl e, g2)
                       | Inr hdn_cell \<Rightarrow>
                           (let hit_dice_num = str_to_dbl py hdn_cell
                            in if float_le hit_dice_num (Finite 1)
                               then (Inr (total_ehd div 4), g2)
                               else (Inr total_ehd, g2))))))))"

definition roll_encounter_by_sub_table :: "python \<Rightarrow> sim \<Rightarrow> string \<Rightarrow> rng \<Rightarrow> int outcome" where
  "roll_encounter_by_sub_table py sm table_name g =
     (case get_col_from_name (sub_table sm) table_name of
        Inl e \<Rightarrow> (Inl e, g)
      | Inr col_index \<Rightarrow>
          if col_index < 1 then (Inr 0, g)
          else (case get_random_entry_on_col (sub_table sm) col_index g of
                  (Inl e, g1) \<Rightarrow> (Inl e, g1)
                | (Inr entry, g1) \<Rightarrow>
                    (case monster_fixup entry g1 of
                       (Inl e, g2) \<Rightarrow> (Inl e, g2)
                     | (Inr monster_name, g2) \<Rightarrow> roll_encounter_by_monster py sm monster_name g2)))"

definition roll_encounter_by_terrain :: "python \<Rightarrow> sim \<Rightarrow> rng \<Rightarrow> int outcome" where
  "roll_encounter_by_terrain py sm g =
     (case get_random_entry_on_col (main_table sm) (terrain_index sm) g of
        (Inl e, g1) \<Rightarrow> (Inl e, g1)
      | (Inr entry, g1) \<Rightarrow>
          roll_encounter_by_sub_table py sm (sub_table_fixup (terrain sm) entry) g1)"

subsection \<open>Example data\<close>

text \<open>
  A small monster database in the column layout of the resolver (number appearing in
  column 1, hit-dice number in column 12, EHD in column 13), a subtable and a terrain
  table, for running the functions on concrete input.
\<close>

definition example_monsters :: table where
  "example_monsters =
     [[''Name'', ''Num'', ''c2'', ''c3'', ''c4'', ''c5'', ''c6'', ''c7'', ''c8'', ''c9'', ''c10'',
       ''c11'', ''HDN'', ''EHD''],
      [''Orc'', ''3'', ''-'', ''-'', ''-'', ''-'', ''-'', ''-'', ''-'', ''-'', ''-'',
       ''-'', ''0.5'', ''8''],
      [''Ghost'', ''1'', ''-'', ''-'', ''-'', ''-'', ''-'', ''-'', ''-'', ''-'', ''-'',
       ''-'', [], ''10''],
      [''Ogre'', ''1'', ''-'', ''-'', ''-'', ''-'', ''-'', ''-'', ''-'', ''-'', ''-'',
       ''-'', ''2'', ''10'']]"

definition example_subtable :: table where
  "example_subtable =
     [[''Die'', ''Men Typical'', ''Undead'', ''Void''],
      [''1'', ''Lord'', ''Ghost'', ''-''],
      [''2'', ''-'', ''Wraith'', ''-'']]"

definition example_main :: table where
  "example_main =
     [[''Die'', ''Plains''],
      [''1'', ''Men''],
      [''2'', ''Undead'']]"

definition example_sim :: sim where
  "example_sim =
     \<lparr>main_table = example_main, sub_table = example_subtable,
      monster_table = example_monsters, terrain = ''Plains'', terrain_index = 1\<rparr>"

section \<open>Properties\<close>

subsection \<open>Roll adjustment\<close>

lemmas parse_eval_defs =
  parse_string_def pattern_match_def scan_posnum_def scan_group3_def scan_group4_def
  is_digit_def is_nonzero_digit_def digits_val_def digit_val_def startswith_def

lemma adjust_roll_negative:
  "multiplier d < 0 \<Longrightarrow> adjust_roll d s = (s - 1) div \<bar>multiplier d\<bar> + 1 + addition d"
  by (simp add: adjust_roll_def)

lemma adjust_roll_zero: "adjust_roll d 0 = addition d"
proof (cases "multiplier d \<ge> 0")
  case True
  then show ?thesis by (simp add: adjust_roll_def)
next
  case False
  then have "0 < - multiplier d" by simp
  then have "(- 1) div (- multiplier d) = - 1" by (rule div_eq_minus1)
  with False show ?thesis by (simp add: adjust_roll_def)
qed

lemma fst_roll_dice:
  "fst (roll_loop (nat (number d)) (sides d) 0 g) = Inr s \<Longrightarrow>
   fst (roll_dice d g) = Inr (adjust_roll d s)"
  by (auto simp: roll_dice_def split: prod.splits sum.splits)

text \<open>
  Claim C1. For a dice specification with a negative multiplier and a raw sum \<open>s \<ge> 1\<close>,
  the adjusted roll is \<open>(s - 1) div |multiplier| + 1 + addition\<close>: this is what
  \<^verbatim>\<open>_adjust_roll\<close> returns, what \<^verbatim>\<open>roll_dice\<close> returns when its dice add up to
  \<open>s\<close>, and what \<^verbatim>\<open>min_roll\<close> and \<^verbatim>\<open>max_roll\<close> return when \<open>s\<close> is the least and
  the greatest raw sum. The string 4d6/2 parses to number 4, sides 6, multiplier -2,
  addition 0, and there a raw sum of 7 is adjusted to 4.
\<close>

theorem C1_negative_multiplier_adjustment:
  assumes "multiplier d < 0" and "1 \<le> s"
  shows "adjust_roll d s = (s - 1) div \<bar>multiplier d\<bar> + 1 + addition d
       \<and> (fst (roll_loop (nat (number d)) (sides d) 0 g) = Inr s \<longrightarrow>
            fst (roll_dice d g) = Inr ((s - 1) div \<bar>multiplier d\<bar> + 1 + addition d))
       \<and> (number d = s \<longrightarrow> min_roll d = (s - 1) div \<bar>multiplier d\<bar> + 1 + addition d)
       \<and> (number d * sides d = s \<longrightarrow>
            max_roll d = (s - 1) div \<bar>multiplier d\<bar> + 1 + addition d)
       \<and> parse_string pyint ''4d6/2'' = \<lparr>number = 4, sides = 6, multiplier = - 2, addition = 0\<rparr>
       \<and> adjust_roll (parse_string pyint ''4d6/2'') 7 = 4"
proof -
  note adj = adjust_roll_negative [OF assms(1)]
  have p: "parse_string pyint ''4d6/2'' = \<lparr>number = 4, sides = 6, multiplier = - 2, addition = 0\<rparr>"
    by (simp add: parse_eval_defs)
  have e: "adjust_roll (parse_string pyint ''4d6/2'') 7 = 4"
    unfolding p by (simp add: adjust_roll_def)
  have r: "fst (roll_loop (nat (number d)) (sides d) 0 g) = Inr s \<longrightarrow>
            fst (roll_dice d g) = Inr ((s - 1) div \<bar>multiplier d\<bar> + 1 + addition d)"
    using fst_roll_dice [of d g s] by (simp add: adj)
  have mn: "number d = s \<longrightarrow> min_roll d = (s - 1) div \<bar>multiplier d\<bar> + 1 + addition d"
    by (simp add: min_roll_def adj)
  have mx: "number d * sides d = s \<longrightarrow>
            max_roll d = (s - 1) div \<bar>multiplier d\<bar> + 1 + addition d"
    by (simp add: max_roll_def adj)
  from adj r mn mx p e show ?thesis by blast
qed

theorem C1_witness:
  "multiplier \<lparr>number = 4, sides = 6, multiplier = - 2, addition = 0\<rparr> < 0 \<and> (1::int) \<le> 7
   \<and> fst (roll_loop (nat (number \<lparr>number = 4, sides = 6, multiplier = - 2, addition = 0\<rparr>))
             (sides \<lparr>number = 4, sides = 6, multiplier = - 2, addition = 0\<rparr>) 0
             (scripted [0, 1, 2, 0])) = Inr 7
   \<and> fst (roll_dice \<lparr>number = 4, sides = 6, multiplier = - 2, addition = 0\<rparr>
             (scripted [0, 1, 2, 0])) = Inr 4
   \<and> min_roll \<lparr>number = 4, sides = 6, multiplier = - 2, addition = 0\<rparr> = 2
   \<and> max_roll \<lparr>number = 4, sides = 6, multiplier = - 2, addition = 0\<rparr> = 12"
proof -
  let ?d = "\<lparr>number = 4, sides = 6, multiplier = - 2, addition = 0\<rparr>"
  let ?g = "(scripted [0, 1, 2, 0])"
  have m: "multiplier ?d < 0" by simp
  have l: "fst (roll_loop (nat (number ?d)) (sides ?d) 0 ?g) = Inr 7"
    by code_simp
  from C1_negative_multiplier_adjustment [OF m, of 7 ?g decimal_int]
       C1_negative_multiplier_adjustment [OF m, of 4 ?g decimal_int]
       C1_negative_multiplier_adjustment [OF m, of 24 ?g decimal_int] l
  show ?thesis by simp
qed

text \<open>
  Claim C9. A dice specification with \<open>number = 0\<close> rolls exactly its \<open>addition\<close>,
  whatever the multiplier, and draws nothing from the generator: the raw sum is 0, and
  \<^verbatim>\<open>_adjust_roll\<close> maps 0 to \<open>addition\<close> on both branches, since
  \<open>(0 - 1) div k + 1 = 0\<close> for every \<open>k > 0\<close> under floor division.
\<close>

theorem C9_no_dice_rolls_addend:
  assumes "number d = 0"
  shows "roll_dice d g = (Inr (addition d), g) \<and> adjust_roll d 0 = addition d"
  using assms by (simp add: roll_dice_def adjust_roll_zero)

theorem C9_witness:
  "number \<lparr>number = 0, sides = 6, multiplier = - 3, addition = 5\<rparr> = 0
   \<and> roll_dice \<lparr>number = 0, sides = 6, multiplier = - 3, addition = 5\<rparr>
        (scripted [3, 1]) = (Inr 5, scripted [3, 1])"
  using C9_no_dice_rolls_addend [of "\<lparr>number = 0, sides = 6, multiplier = - 3, addition = 5\<rparr>"
      "scripted [3, 1]"]
  by simp

end
